theory Spec2Isabelle
  imports Main "HOL-Library.Word"
begin

unbundle bit_operations_syntax

section \<open>Common values\<close>

text \<open>
  A Go \<open>error\<close> value. \<open>nil\<close> is \<open>None\<close> of \<open>error option\<close>.
  \<open>ErrNotExist\<close> is \<open>os.ErrNotExist\<close>; \<open>ErrorResponse c\<close> is an
  \<open>*api.ErrorResponse\<close> whose \<open>Response.StatusCode\<close> is \<open>c\<close>; every other
  error carries its message.
\<close>

datatype error = ErrNotExist | ErrorResponse nat | Err string

text \<open>\<open>fmt.Sprintf("%d", n)\<close>: the decimal rendering of an integer.\<close>

definition digit_char :: "nat \<Rightarrow> char" where
  "digit_char d = ''0123456789'' ! (d mod 10)"

fun string_of_nat :: "nat \<Rightarrow> string" where
  "string_of_nat n =
     (if n < 10 then [digit_char n] else string_of_nat (n div 10) @ [digit_char (n mod 10)])"

declare string_of_nat.simps [simp del]

definition string_of_int :: "int \<Rightarrow> string" where
  "string_of_int i = (if i < 0 then CHR ''-'' # string_of_nat (nat (- i)) else string_of_nat (nat i))"

text \<open>Reading a decimal rendering back, to state that the rendering is decimal.\<close>

definition digit_value :: "char \<Rightarrow> nat" where
  "digit_value c = of_char c - 48"

definition decimal_value :: "string \<Rightarrow> nat" where
  "decimal_value s = foldl (\<lambda>acc c. acc * 10 + digit_value c) 0 s"

section \<open>process: the exit status\<close>

text \<open>
  \<open>syscall.WaitStatus\<close> is a \<open>uint32\<close>. On Linux \<open>Exited\<close> tests the low seven bits
  and \<open>ExitStatus\<close> reads bits 8 to 15, or is \<open>-1\<close> for a child that did not exit.
\<close>

definition ws_Exited :: "32 word \<Rightarrow> bool" where
  "ws_Exited w = (w AND 0x7F = 0)"

definition ws_ExitStatus :: "32 word \<Rightarrow> int" where
  "ws_ExitStatus w = (if \<not> ws_Exited w then - 1 else uint (drop_bit 8 w AND 0xFF))"

text \<open>The wait status the kernel reports for a child that called \<open>exit(n)\<close>.\<close>

definition exit_wait_status :: "nat \<Rightarrow> 32 word" where
  "exit_wait_status n = push_bit 8 (word_of_nat (n mod 256))"

text \<open>
  The error \<open>command.Wait()\<close> returns: an \<open>*exec.ExitError\<close>, whose \<open>Sys()\<close> is a
  \<open>syscall.WaitStatus\<close> or something else, or an error of another type.
\<close>

datatype sys_value = WaitStatus "32 word" | OtherSys

datatype wait_error = ExitError sys_value | OtherWaitError string

fun getExitStatus :: "wait_error option \<Rightarrow> string" where
  "getExitStatus None = string_of_int 0"
| "getExitStatus (Some (ExitError (WaitStatus s))) = string_of_int (ws_ExitStatus s)"
| "getExitStatus (Some (ExitError OtherSys)) = string_of_int (- 1)"
| "getExitStatus (Some (OtherWaitError m)) = string_of_int (- 1)"

section \<open>process: the line scanner\<close>

text \<open>
  The fields of \<open>Process\<close> the functions below read and write. \<open>command_started\<close>
  stands for \<open>p.command != nil && p.command.Process != nil\<close>; \<open>done_chan\<close> is the
  channel \<open>p.done\<close>, which is nil, open or closed.
\<close>

datatype chan = NilChan | OpenChan | ClosedChan

record process =
  Pid :: nat
  PTY :: bool
  Timestamp :: bool
  ExitStatus :: string
  command_started :: bool
  LinePreProcessor :: "string \<Rightarrow> string"
  LineCallbackFilter :: "string \<Rightarrow> bool"
  running :: bool
  done_chan :: chan

text \<open>
  \<open>headerExpansionRegex\<close> is \<^verbatim>\<open>^(?:\^\^\^\s+\+\+\+)\s*$\<close>: the text is three carets,
  one or more white-space characters, three plus signs and any trailing white space.
  The class \<^verbatim>\<open>\s\<close> of Go's regexp is tab, newline, form feed, carriage return and
  space.
\<close>

definition is_space :: "char \<Rightarrow> bool" where
  "is_space c = (c \<in> {CHR 0x09, CHR 0x0A, CHR 0x0C, CHR 0x0D, CHR '' ''})"

definition headerExpansionRegex :: "string set" where
  "headerExpansionRegex =
     {''^^^'' @ ws1 @ ''+++'' @ ws2 | ws1 ws2.
        ws1 \<noteq> [] \<and> list_all is_space ws1 \<and> list_all is_space ws2}"

text \<open>\<open>headerExpansionRegex.MatchString\<close>, as a function that computes.\<close>

definition MatchString :: "string \<Rightarrow> bool" where
  "MatchString s =
     (let r = drop 3 s; r' = dropWhile is_space r
      in take 3 s = ''^^^'' \<and> length r' < length r \<and> take 3 r' = ''+++''
         \<and> list_all is_space (drop 3 r'))"

text \<open>
  The shape the specification gives for a structural marker line: the text \<open>^^^ +++\<close>,
  possibly surrounded by white space.
\<close>

definition spec_marker_shape :: "string \<Rightarrow> bool" where
  "spec_marker_shape s =
     (rev (dropWhile is_space (rev (dropWhile is_space s))) = ''^^^ +++'')"

text \<open>
  The state of the scanner goroutine: the output buffer \<open>p.buffer\<close>, the lines handed
  to \<open>p.LineCallback\<close>, and the number of times the clock has been read. The clock
  \<open>clk\<close> gives the text of \<open>time.Now().UTC().Format(time.RFC3339)\<close> at each reading.
\<close>

record scan_state =
  buffer :: string
  delivered :: "string list"
  ticks :: nat

text \<open>The body of the scanner loop for one complete line (after reassembly).\<close>

definition process_line :: "process \<Rightarrow> (nat \<Rightarrow> string) \<Rightarrow> string \<Rightarrow> scan_state \<Rightarrow> scan_state" where
  "process_line p clk line st =
     (let lineString = LinePreProcessor p line;
          lineHasCallback = (Timestamp p \<and> LineCallbackFilter p lineString);
          checkedForCallback = Timestamp p;
          st1 = (if Timestamp p then
                   (if lineHasCallback \<or> MatchString lineString
                    then st\<lparr>buffer := buffer st @ line @ [CHR 0x0A]\<rparr>
                    else st\<lparr>buffer := buffer st @ ''['' @ clk (ticks st) @ ''] '' @ line @ [CHR 0x0A],
                            ticks := Suc (ticks st)\<rparr>)
                 else st)
      in if lineHasCallback \<or> \<not> checkedForCallback then
           (if (checkedForCallback \<and> lineHasCallback) \<or> LineCallbackFilter p lineString
            then st1\<lparr>delivered := delivered st1 @ [lineString]\<rparr> else st1)
         else st1)"

text \<open>
  The scanner loop over the results of \<open>reader.ReadLine()\<close>, each a piece of a line
  with its \<open>isPrefix\<close> flag, until \<open>io.EOF\<close>. \<open>appending\<close> is the long line being
  put together, \<open>None\<close> for \<open>nil\<close>.
\<close>

fun scan_lines :: "process \<Rightarrow> (nat \<Rightarrow> string) \<Rightarrow> (string \<times> bool) list \<Rightarrow> string option
    \<Rightarrow> scan_state \<Rightarrow> scan_state" where
  "scan_lines p clk [] appending st = st"
| "scan_lines p clk ((line, isPrefix) # rest) appending st =
     (if isPrefix \<and> appending = None then scan_lines p clk rest (Some line) st
      else case appending of
        Some a \<Rightarrow>
          (if \<not> isPrefix then scan_lines p clk rest None (process_line p clk (a @ line) st)
           else scan_lines p clk rest (Some (a @ line)) st)
      | None \<Rightarrow> scan_lines p clk rest None (process_line p clk line st))"

section \<open>process: Start\<close>

definition Second :: nat where
  "Second = 1000000000"

definition IsRunning :: "process \<Rightarrow> bool" where
  "IsRunning p = running p"

definition setRunning :: "bool \<Rightarrow> process \<Rightarrow> process" where
  "setRunning r p = p\<lparr>running := r\<rparr>"

text \<open>
  \<open>timeoutWait\<close>: the wait group is done after \<open>fin\<close> nanoseconds (\<open>None\<close>: never).
  The \<open>select\<close> takes the channel when the wait group is done before the timer of
  ten seconds fires; when both are ready it takes either, \<open>tie\<close> saying which. The result
  is the error and the time spent waiting.
\<close>

definition timeoutWait :: "nat option \<Rightarrow> bool \<Rightarrow> error option \<times> nat" where
  "timeoutWait fin tie =
     (case fin of
        Some t \<Rightarrow> if t < 10 * Second \<or> (t = 10 * Second \<and> tie) then (None, t)
                  else (Some (Err ''Timeout''), 10 * Second)
      | None \<Rightarrow> (Some (Err ''Timeout''), 10 * Second))"

text \<open>
  What \<open>Start\<close> meets outside the process: the result of starting the command (an error
  or the pid), the result of \<open>command.Wait()\<close> once the command has exited, and when
  the goroutines of the wait group finish.
\<close>

record start_env =
  spawn_result :: "error + nat"
  wait_result :: "wait_error option"
  drain_after :: "nat option"
  drain_tie :: bool

datatype start_event =
    CommandStarted | RunningSet bool | PTYCopySpawned | ScannerSpawned | StartCallbackSpawned
  | CommandWaited | LineWriterClosed | DoneClosed | ExitStatusSet | TimeoutWaited nat

text \<open>
  How a call ends: it returns (an error or nil), it panics, or \<open>logger.Fatal\<close> logs a
  message and ends the whole program.
\<close>

datatype outcome = Returned "error option" | Panicked string | Fatal string

text \<open>
  \<open>Start\<close>, with the steps it takes in order, each with the process as it is after the
  step. The goroutine that copies the pseudo-terminal is spawned in PTY mode only.
  Closing a channel that is closed already panics.
\<close>

definition Start :: "start_env \<Rightarrow> process \<Rightarrow> outcome \<times> process \<times> (start_event \<times> process) list" where
  "Start env p =
     (if IsRunning p then (Returned (Some (Err ''Process is already running'')), p, [])
      else
        let p0 = (if done_chan p = NilChan then p\<lparr>done_chan := OpenChan\<rparr> else p)
        in case spawn_result env of
          Inl e \<Rightarrow> (Returned (Some e), p0\<lparr>ExitStatus := ''1''\<rparr>, [])
        | Inr pid \<Rightarrow>
            let p1 = p0\<lparr>command_started := True, Pid := pid\<rparr>;
                p2 = setRunning True p1;
                p3 = setRunning False p2;
                tr = [(CommandStarted, p1), (RunningSet True, p2)]
                     @ (if PTY p then [(PTYCopySpawned, p2)] else [])
                     @ [(ScannerSpawned, p2), (StartCallbackSpawned, p2), (CommandWaited, p2),
                        (LineWriterClosed, p2), (RunningSet False, p3)]
            in if done_chan p3 = ClosedChan then (Panicked ''close of closed channel'', p3, tr)
               else
                 let p4 = p3\<lparr>done_chan := ClosedChan\<rparr>;
                     p5 = p4\<lparr>ExitStatus := getExitStatus (wait_result env)\<rparr>;
                     (err, waited) = timeoutWait (drain_after env) (drain_tie env)
                 in (Returned None, p5,
                     tr @ [(DoneClosed, p4), (ExitStatusSet, p5), (TimeoutWaited waited, p5)]))"

section \<open>process: Kill\<close>

datatype os_signal = SIGTERM | SIGKILL

datatype kill_event =
    TaskKill nat | SignalSent os_signal nat | NoProcessToSignal | DoneObserved | GraceElapsed

text \<open>
  What \<open>Kill\<close> meets outside the process: the result of running \<open>TASKKILL\<close>, the result
  of \<open>Process.Signal\<close> for each signal, when the done channel is closed (nanoseconds
  from the \<open>select\<close>, \<open>None\<close>: never), and which case the \<open>select\<close> takes when both
  are ready.
\<close>

record kill_env =
  taskkill_result :: "error option"
  signal_result :: "os_signal \<Rightarrow> error option"
  done_after :: "nat option"
  select_tie :: bool

definition signal :: "kill_env \<Rightarrow> process \<Rightarrow> os_signal \<Rightarrow> error option \<times> kill_event list" where
  "signal env p sig =
     (if command_started p then
        (case signal_result env sig of
           Some e \<Rightarrow> (Some e, [SignalSent sig (Pid p)])
         | None \<Rightarrow> (None, [SignalSent sig (Pid p)]))
      else (None, [NoProcessToSignal]))"

definition Done :: "process \<Rightarrow> process" where
  "Done p = (if done_chan p = NilChan then p\<lparr>done_chan := OpenChan\<rparr> else p)"

text \<open>
  The \<open>select\<close> of \<open>Kill\<close>: the done channel against \<open>time.After(gracePeriod)\<close>, a
  timer that fires at once when the duration is not positive. A channel that is closed
  already is ready at once.
\<close>

definition done_first :: "kill_env \<Rightarrow> process \<Rightarrow> int \<Rightarrow> bool" where
  "done_first env p gracePeriod =
     (case (if done_chan p = ClosedChan then Some 0 else done_after env) of
        None \<Rightarrow> False
      | Some t \<Rightarrow> int t < max 0 gracePeriod \<or> (int t = max 0 gracePeriod \<and> select_tie env))"

definition Kill :: "string \<Rightarrow> kill_env \<Rightarrow> process \<Rightarrow> int \<Rightarrow> error option \<times> process \<times> kill_event list" where
  "Kill goos env p gracePeriod =
     (let (err, ev1) = (if goos = ''windows'' then (taskkill_result env, [TaskKill (Pid p)])
                        else signal env p SIGTERM)
      in if err \<noteq> None then (err, p, ev1)
         else
           let p' = Done p
           in if done_first env p' gracePeriod then (None, p', ev1 @ [DoneObserved])
              else
                let (err2, ev2) = signal env p' SIGKILL
                in if err2 \<noteq> None then (err2, p', ev1 @ [GraceElapsed] @ ev2)
                   else (None, p', ev1 @ [GraceElapsed] @ ev2))"

section \<open>retry\<close>

text \<open>
  Modelled from the spec: the package \<open>retry\<close> (\<open>retry.Do\<close>, \<open>retry.Stats\<close>,
  \<open>retry.Config\<close>) is not among the sources; only its callers are. The specification
  says: \<open>retry(operation, maximum, interval)\<close> invokes \<open>operation\<close> up to \<open>maximum\<close>
  times, waiting \<open>interval\<close> before each retry; the operation receives the mutable
  attempt state and may call \<open>break()\<close> to force immediate, permanent abandonment
  regardless of remaining attempts; the result is the last error if attempts are
  exhausted or broken, nil on first success.

  The attempt state has the 1-based attempt index, the configured maximum and the
  broken flag. \<open>Do\<close> returns the result and the number of times it invoked the
  operation; the waits, one before each retry, are not modelled.
\<close>

record Stats =
  Attempt :: nat
  Maximum :: nat
  breakNow :: bool

definition Break :: "Stats \<Rightarrow> Stats" where
  "Break s = s\<lparr>breakNow := True\<rparr>"

function retry_attempts :: "(Stats \<Rightarrow> error option \<times> Stats) \<Rightarrow> nat \<Rightarrow> nat \<Rightarrow> error option \<times> nat" where
  "retry_attempts operation maximum attempt =
     (let r = operation \<lparr>Attempt = attempt, Maximum = maximum, breakNow = False\<rparr>
      in if fst r = None then (None, attempt)
         else if breakNow (snd r) \<or> maximum \<le> attempt then (fst r, attempt)
         else retry_attempts operation maximum (Suc attempt))"
  by pat_completeness auto
termination
  by (relation "measure (\<lambda>(operation, maximum, attempt). maximum - attempt)") auto

declare retry_attempts.simps [simp del]

definition Do :: "(Stats \<Rightarrow> error option \<times> Stats) \<Rightarrow> nat \<Rightarrow> error option \<times> nat" where
  "Do operation maximum = (if maximum = 0 then (None, 0) else retry_attempts operation maximum 1)"

section \<open>clicommand: the retried requests\<close>

text \<open>
  The callback of \<open>PipelineUploadCommand\<close>. \<open>err\<close> is what \<open>client.Pipelines.Upload\<close>
  returned in this attempt.
\<close>

definition pipeline_upload_callback :: "error option \<Rightarrow> Stats \<Rightarrow> error option \<times> Stats" where
  "pipeline_upload_callback err s =
     (case err of
        None \<Rightarrow> (err, s)
      | Some (ErrorResponse StatusCode) \<Rightarrow> if StatusCode = 422 then (err, Break s) else (err, s)
      | Some _ \<Rightarrow> (err, s))"

text \<open>
  The callback of \<open>AnnotateCommand\<close>. \<open>client.Annotations.Create\<close> returned the response
  \<open>resp\<close> (\<open>None\<close> for nil, else its status code) and \<open>err\<close>.
\<close>

definition annotate_callback :: "nat option \<times> error option \<Rightarrow> Stats \<Rightarrow> error option \<times> Stats" where
  "annotate_callback r s =
     (case r of (resp, err) \<Rightarrow>
        (case resp of
           Some StatusCode \<Rightarrow>
             if StatusCode = 401 \<or> StatusCode = 404 \<or> StatusCode = 400 then (err, Break s)
             else (err, s)
         | None \<Rightarrow> (err, s)))"

text \<open>
  The two retried requests, against a backend that answers the \<open>n\<close>-th attempt with
  \<open>backend n\<close>. Both are configured with \<open>Maximum: 5\<close>.
\<close>

definition pipeline_upload_retry :: "(nat \<Rightarrow> error option) \<Rightarrow> error option \<times> nat" where
  "pipeline_upload_retry backend = Do (\<lambda>s. pipeline_upload_callback (backend (Attempt s)) s) 5"

definition annotate_retry :: "(nat \<Rightarrow> nat option \<times> error option) \<Rightarrow> error option \<times> nat" where
  "annotate_retry backend = Do (\<lambda>s. annotate_callback (backend (Attempt s)) s) 5"

section \<open>agent: collecting artifacts\<close>

text \<open>
  The fields of \<open>api.Artifact\<close> that the uploader reads and writes.
\<close>

record Artifact =
  ID :: string
  Path :: string
  AbsolutePath :: string
  GlobPath :: string
  FileSize :: int
  Sha1Sum :: string
  URL :: string

text \<open>
  An open file: what \<open>file.Stat()\<close> gives (an error or the size), the bytes
  \<open>io.Copy\<close> reads from it, and the error the reading stops with (\<open>None\<close> at the end
  of the file).
\<close>

record os_File =
  file_Stat :: "error + int"
  read_bytes :: string
  read_error :: "error option"

text \<open>
  The operating system and the libraries \<open>Collect\<close> calls: \<open>os.Getwd\<close>,
  \<open>zglob.Glob\<close>, \<open>filepath.Abs\<close>, \<open>os.Stat\<close> (an error or whether the path is a
  directory), \<open>filepath.IsAbs\<close>, \<open>filepath.VolumeName\<close>, \<open>filepath.Rel\<close>,
  \<open>os.Open\<close>, and SHA-1 with its digest in hexadecimal.
\<close>

record os_env =
  os_Getwd :: "error + string"
  zglob_Glob :: "string \<Rightarrow> error + string list"
  filepath_Abs :: "string \<Rightarrow> error + string"
  os_Stat :: "string \<Rightarrow> error + bool"
  filepath_IsAbs :: "string \<Rightarrow> bool"
  filepath_VolumeName :: "string \<Rightarrow> string"
  filepath_Rel :: "string \<Rightarrow> string \<Rightarrow> error + string"
  os_Open :: "string \<Rightarrow> error + os_File"
  sha1_hex :: "string \<Rightarrow> string"

definition ArtifactPathDelimiter :: char where
  "ArtifactPathDelimiter = CHR '';''"

text \<open>\<open>strings.Split\<close> at a separator of one character.\<close>

fun Split :: "string \<Rightarrow> char \<Rightarrow> string list" where
  "Split [] sep = [[]]"
| "Split (c # cs) sep =
     (if c = sep then [] # Split cs sep
      else (case Split cs sep of x # xs \<Rightarrow> (c # x) # xs | [] \<Rightarrow> [[c]]))"

text \<open>
  \<open>strings.TrimSpace\<close> on ASCII text: tab, newline, vertical tab, form feed, carriage
  return and space are cut from both ends.
\<close>

definition is_ascii_space :: "char \<Rightarrow> bool" where
  "is_ascii_space c = (c \<in> {CHR 0x09, CHR 0x0A, CHR 0x0B, CHR 0x0C, CHR 0x0D, CHR '' ''})"

definition TrimSpace :: "string \<Rightarrow> string" where
  "TrimSpace s = rev (dropWhile is_ascii_space (rev (dropWhile is_ascii_space s)))"

definition isDir :: "os_env \<Rightarrow> string \<Rightarrow> bool" where
  "isDir env path = (case os_Stat env path of Inl err \<Rightarrow> False | Inr d \<Rightarrow> d)"

text \<open>\<open>io.Copy(hash, file)\<close>: the bytes written to the hash, and the error.\<close>

definition io_Copy :: "os_File \<Rightarrow> string \<times> error option" where
  "io_Copy f = (read_bytes f, read_error f)"

text \<open>\<open>build\<close> calls \<open>io.Copy\<close> and drops both of its results.\<close>

definition build :: "os_env \<Rightarrow> string \<Rightarrow> string \<Rightarrow> string \<Rightarrow> error + Artifact" where
  "build env path absolutePath globPath =
     (case os_Open env absolutePath of
        Inl err \<Rightarrow> Inl err
      | Inr f \<Rightarrow>
          (case file_Stat f of
             Inl err \<Rightarrow> Inl err
           | Inr fileSize \<Rightarrow>
               let hashed = fst (io_Copy f);
                   checksum = sha1_hex env hashed
               in Inr \<lparr>ID = [], Path = path, AbsolutePath = absolutePath, GlobPath = globPath,
                       FileSize = fileSize, Sha1Sum = checksum, URL = []\<rparr>))"

text \<open>
  The inner loop of \<open>Collect\<close>, over the files one glob matched. The variable \<open>wd\<close> is
  declared before the outer loop and assigned in the inner one, so the loops hand it on.
\<close>

fun collect_files :: "string \<Rightarrow> os_env \<Rightarrow> string \<Rightarrow> string list \<Rightarrow> string \<Rightarrow> Artifact list
    \<Rightarrow> error + (string \<times> Artifact list)" where
  "collect_files goos env globPath [] wd artifacts = Inr (wd, artifacts)"
| "collect_files goos env globPath (file # files) wd artifacts =
     (case filepath_Abs env file of
        Inl err \<Rightarrow> Inl err
      | Inr absolutePath \<Rightarrow>
          if isDir env absolutePath then collect_files goos env globPath files wd artifacts
          else
            let wd' = (if filepath_IsAbs env globPath
                       then (if goos = ''windows''
                             then filepath_VolumeName env absolutePath @ ''/'' else ''/'')
                       else wd)
            in case filepath_Rel env wd' absolutePath of
                 Inl err \<Rightarrow> Inl err
               | Inr path \<Rightarrow>
                   (case build env path absolutePath globPath of
                      Inl err \<Rightarrow> Inl err
                    | Inr artifact \<Rightarrow>
                        collect_files goos env globPath files wd' (artifacts @ [artifact])))"

text \<open>The outer loop of \<open>Collect\<close>, over the pieces of \<open>a.Paths\<close>.\<close>

fun collect_globs :: "string \<Rightarrow> os_env \<Rightarrow> string list \<Rightarrow> string \<Rightarrow> Artifact list
    \<Rightarrow> error + Artifact list" where
  "collect_globs goos env [] wd artifacts = Inr artifacts"
| "collect_globs goos env (piece # pieces) wd artifacts =
     (let globPath = TrimSpace piece
      in if globPath = [] then collect_globs goos env pieces wd artifacts
         else case zglob_Glob env globPath of
                Inl err \<Rightarrow>
                  if err = ErrNotExist then collect_globs goos env pieces wd artifacts
                  else Inl err
              | Inr files \<Rightarrow>
                  (case collect_files goos env globPath files wd artifacts of
                     Inl err \<Rightarrow> Inl err
                   | Inr (wd', artifacts') \<Rightarrow> collect_globs goos env pieces wd' artifacts'))"

definition Collect :: "string \<Rightarrow> os_env \<Rightarrow> string \<Rightarrow> error + Artifact list" where
  "Collect goos env Paths =
     (case os_Getwd env of
        Inl err \<Rightarrow> Inl err
      | Inr wd \<Rightarrow> collect_globs goos env (Split Paths ArtifactPathDelimiter) wd [])"

section \<open>agent: uploading artifacts\<close>

datatype Uploader = S3Uploader | GSUploader | FormUploader

definition HasPrefix :: "string \<Rightarrow> string \<Rightarrow> bool" where
  "HasPrefix s prefix = (take (length prefix) s = prefix)"

text \<open>The choice of the uploader at the head of \<open>upload\<close>.\<close>

definition select_uploader :: "string \<Rightarrow> error + Uploader" where
  "select_uploader Destination =
     (if Destination \<noteq> [] then
        (if HasPrefix Destination ''s3://'' then Inr S3Uploader
         else if HasPrefix Destination ''gs://'' then Inr GSUploader
         else Inl (Err (''Invalid upload destination: '' @ [CHR 0x27] @ Destination @ [CHR 0x27]
                @ ''. Only s3:// and gs:// upload destinations are allowed. ''
                @ ''Did you forget to surround your artifact upload pattern in double quotes?'')))
      else Inr FormUploader)"

text \<open>
  What \<open>upload\<close> calls outside this file: \<open>uploader.Setup\<close>, \<open>uploader.URL\<close>,
  \<open>ArtifactBatchCreator.Create\<close> (an error, or the artifacts with the identifiers the
  backend gave them), \<open>uploader.Upload\<close> and \<open>APIClient.Artifacts.Update\<close>, whose
  results may change from one attempt to the next, and the capacity
  \<open>pool.MaxConcurrencyLimit\<close> of the worker pool.
\<close>

record backend =
  uploader_Setup :: "Uploader \<Rightarrow> string \<Rightarrow> error option"
  uploader_URL :: "Uploader \<Rightarrow> Artifact \<Rightarrow> string"
  batch_Create :: "Artifact list \<Rightarrow> error + Artifact list"
  uploader_Upload :: "Uploader \<Rightarrow> Artifact \<Rightarrow> nat \<Rightarrow> error option"
  Artifacts_Update :: "(string \<times> string) list \<Rightarrow> nat \<Rightarrow> error option"
  MaxConcurrencyLimit :: nat

datatype upload_event =
    EvSetup Uploader | EvCreate "Artifact list" | EvUpload string nat
  | EvUpdate "(string \<times> string) list" nat

text \<open>
  The goroutines of \<open>upload\<close> share variables, so they are modelled by their steps, one
  step for each access to a shared variable.

  A worker is the function handed to \<open>p.Spawn\<close> for one artifact. \<open>Uploading\<close>: it
  runs \<open>retry.Do\<close> around \<open>uploader.Upload\<close> and assigns the result to \<open>err\<close>.
  \<open>Assigned\<close>: it tests \<open>err != nil\<close>. \<open>Recording\<close>: it appends \<open>err\<close> to
  \<open>errors\<close>. \<open>Storing state\<close>: it writes \<open>artifactStates[artifact.ID] = state\<close>.

  The reporter is the goroutine that sends the states. \<open>Polling\<close>: it tests
  \<open>artifactStatesUploaded < len(artifacts)\<close> and, holding the lock, moves all of
  \<open>artifactStates\<close> to \<open>statesToUpload\<close>. \<open>Flushing\<close>: it adds to the count, runs
  \<open>retry.Do\<close> around \<open>Artifacts.Update\<close> and assigns the result to \<open>err\<close>.
  \<open>FlushAssigned\<close>: it tests \<open>err != nil\<close>. \<open>FlushRecording\<close>: it appends \<open>err\<close>
  to \<open>errors\<close>. \<open>Sleeping\<close>: it sleeps a second.
\<close>

datatype worker_pc = Queued | Uploading | Assigned | Recording | Storing string | Finished

datatype reporter_pc =
    Polling | Flushing "(string \<times> string) list" | FlushAssigned | FlushRecording | Sleeping
  | Stopped

text \<open>
  The shared variables of \<open>upload\<close>: \<open>var_err\<close> is the variable \<open>err\<close> of \<open>upload\<close>,
  which the closures of the workers and of the reporter assign and read;
  \<open>var_errors\<close> is the slice \<open>errors\<close>; then the map \<open>artifactStates\<close> in the order
  its keys were stored, the counter, where each goroutine stands, and the calls made so
  far.
\<close>

record upload_state =
  var_err :: "error option"
  var_errors :: "error option list"
  artifactStates :: "(string \<times> string) list"
  artifactStatesUploaded :: nat
  workers :: "worker_pc list"
  reporter :: reporter_pc
  events :: "upload_event list"

text \<open>Assignment to a key of a Go map.\<close>

fun map_store :: "string \<Rightarrow> string \<Rightarrow> (string \<times> string) list \<Rightarrow> (string \<times> string) list" where
  "map_store k v [] = [(k, v)]"
| "map_store k v ((k', v') # m) = (if k' = k then (k, v) # m else (k', v') # map_store k v m)"

text \<open>
  Modelled from the spec: the package \<open>pool\<close> (\<open>pool.New\<close>, \<open>Spawn\<close>, \<open>Wait\<close>) is not
  among the sources. The specification calls it a fixed-capacity concurrent task
  executor that caps simultaneous uploads: a task starts when fewer tasks than the
  capacity are running, and tasks start in the order they were spawned.
\<close>

definition active :: "worker_pc \<Rightarrow> bool" where
  "active pc = (pc \<noteq> Queued \<and> pc \<noteq> Finished)"

definition may_start :: "nat \<Rightarrow> worker_pc list \<Rightarrow> nat \<Rightarrow> bool" where
  "may_start limit ws i =
     (list_all (\<lambda>pc. pc \<noteq> Queued) (take i ws) \<and> length (filter active ws) < limit)"

definition worker_step :: "backend \<Rightarrow> Uploader \<Rightarrow> Artifact list \<Rightarrow> nat \<Rightarrow> upload_state
    \<Rightarrow> upload_state option" where
  "worker_step be uploader artifacts i s =
     (if length artifacts \<le> i \<or> length (workers s) \<le> i then None
      else
        let artifact = artifacts ! i
        in case workers s ! i of
          Queued \<Rightarrow>
            if may_start (MaxConcurrencyLimit be) (workers s) i
            then Some (s\<lparr>workers := (workers s)[i := Uploading]\<rparr>) else None
        | Uploading \<Rightarrow>
            let r = Do (\<lambda>st. (uploader_Upload be uploader artifact (Attempt st), st)) 10
            in Some (s\<lparr>var_err := fst r, workers := (workers s)[i := Assigned],
                       events := events s @ [EvUpload (ID artifact) (snd r)]\<rparr>)
        | Assigned \<Rightarrow>
            if var_err s \<noteq> None then Some (s\<lparr>workers := (workers s)[i := Recording]\<rparr>)
            else Some (s\<lparr>workers := (workers s)[i := Storing ''finished'']\<rparr>)
        | Recording \<Rightarrow>
            Some (s\<lparr>var_errors := var_errors s @ [var_err s],
                    workers := (workers s)[i := Storing ''error'']\<rparr>)
        | Storing state \<Rightarrow>
            Some (s\<lparr>artifactStates := map_store (ID artifact) state (artifactStates s),
                    workers := (workers s)[i := Finished]\<rparr>)
        | Finished \<Rightarrow> None)"

definition reporter_step :: "backend \<Rightarrow> Artifact list \<Rightarrow> upload_state \<Rightarrow> upload_state option" where
  "reporter_step be artifacts s =
     (case reporter s of
        Polling \<Rightarrow>
          if artifactStatesUploaded s < length artifacts then
            (let statesToUpload = artifactStates s
             in Some (s\<lparr>artifactStates := [],
                        reporter := (if length statesToUpload > 0 then Flushing statesToUpload
                                     else Sleeping)\<rparr>))
          else Some (s\<lparr>reporter := Stopped\<rparr>)
      | Flushing statesToUpload \<Rightarrow>
          let r = Do (\<lambda>st. (Artifacts_Update be statesToUpload (Attempt st), st)) 10
          in Some (s\<lparr>artifactStatesUploaded := artifactStatesUploaded s + length statesToUpload,
                     var_err := fst r, reporter := FlushAssigned,
                     events := events s @ [EvUpdate statesToUpload (snd r)]\<rparr>)
      | FlushAssigned \<Rightarrow>
          if var_err s \<noteq> None then Some (s\<lparr>reporter := FlushRecording\<rparr>)
          else Some (s\<lparr>reporter := Sleeping\<rparr>)
      | FlushRecording \<Rightarrow>
          Some (s\<lparr>var_errors := var_errors s @ [var_err s], reporter := Sleeping\<rparr>)
      | Sleeping \<Rightarrow> Some (s\<lparr>reporter := Polling\<rparr>)
      | Stopped \<Rightarrow> None)"

text \<open>
  A schedule names the goroutine that takes each step. A schedule that names a goroutine
  which cannot step (a worker waiting for the pool, a goroutine that has ended) runs to
  \<open>None\<close>.
\<close>

datatype thread = Worker nat | Reporter

fun step :: "backend \<Rightarrow> Uploader \<Rightarrow> Artifact list \<Rightarrow> thread \<Rightarrow> upload_state \<Rightarrow> upload_state option" where
  "step be uploader artifacts (Worker i) s = worker_step be uploader artifacts i s"
| "step be uploader artifacts Reporter s = reporter_step be artifacts s"

fun run :: "backend \<Rightarrow> Uploader \<Rightarrow> Artifact list \<Rightarrow> thread list \<Rightarrow> upload_state \<Rightarrow> upload_state option" where
  "run be uploader artifacts [] s = Some s"
| "run be uploader artifacts (t # schedule) s =
     (case step be uploader artifacts t s of
        None \<Rightarrow> None
      | Some s' \<Rightarrow> run be uploader artifacts schedule s')"

text \<open>\<open>p.Wait()\<close> and \<open>stateUploaderWaitGroup.Wait()\<close> have returned.\<close>

definition all_done :: "upload_state \<Rightarrow> bool" where
  "all_done s = (list_all (\<lambda>pc. pc = Finished) (workers s) \<and> reporter s = Stopped)"

text \<open>
  \<open>upload\<close> under a schedule. The result is \<open>None\<close> when the schedule cannot be run or
  ends before both waits have returned.
\<close>

definition upload :: "backend \<Rightarrow> string \<Rightarrow> Artifact list \<Rightarrow> thread list
    \<Rightarrow> outcome option \<times> upload_event list" where
  "upload be Destination artifacts schedule =
     (case select_uploader Destination of
        Inl e \<Rightarrow> (Some (Returned (Some e)), [])
      | Inr uploader \<Rightarrow>
          (case uploader_Setup be uploader Destination of
             Some e \<Rightarrow> (Some (Returned (Some e)), [EvSetup uploader])
           | None \<Rightarrow>
               let artifacts1 = map (\<lambda>artifact. artifact\<lparr>URL := uploader_URL be uploader artifact\<rparr>)
                                  artifacts
               in case batch_Create be artifacts1 of
                    Inl e \<Rightarrow> (Some (Returned (Some e)), [EvSetup uploader, EvCreate artifacts1])
                  | Inr artifacts2 \<Rightarrow>
                      (case run be uploader artifacts2 schedule
                              \<lparr>var_err = None, var_errors = [], artifactStates = [],
                               artifactStatesUploaded = 0,
                               workers = replicate (length artifacts2) Queued,
                               reporter = Polling,
                               events = [EvSetup uploader, EvCreate artifacts1]\<rparr> of
                         None \<Rightarrow> (None, [EvSetup uploader, EvCreate artifacts1])
                       | Some s \<Rightarrow>
                           if all_done s then
                             (if length (var_errors s) > 0
                              then (Some (Fatal ''There were errors with uploading some of the artifacts''),
                                    events s)
                              else (Some (Returned None), events s))
                           else (None, events s))))"

definition Upload :: "string \<Rightarrow> os_env \<Rightarrow> backend \<Rightarrow> string \<Rightarrow> string \<Rightarrow> thread list
    \<Rightarrow> outcome option \<times> upload_event list" where
  "Upload goos env be Paths Destination schedule =
     (case Collect goos env Paths of
        Inl e \<Rightarrow> (Some (Returned (Some e)), [])
      | Inr artifacts \<Rightarrow>
          if length artifacts = 0 then (Some (Returned None), [])
          else upload be Destination artifacts schedule)"

section \<open>Example inputs\<close>

text \<open>
  A process that has not been started, with timestamps on, no line preprocessing and a
  callback filter that accepts no line; and the same process once its command runs.
\<close>

definition example_process :: process where
  "example_process =
     \<lparr>Pid = 0, PTY = False, Timestamp = True, ExitStatus = [], command_started = False,
      LinePreProcessor = (\<lambda>s. s), LineCallbackFilter = (\<lambda>s. False), running = False,
      done_chan = NilChan\<rparr>"

definition example_running_process :: process where
  "example_running_process =
     example_process\<lparr>Pid := 42, command_started := True, running := True, done_chan := OpenChan\<rparr>"

definition example_clock :: "nat \<Rightarrow> string" where
  "example_clock n = ''2018-01-01T00:00:00Z''"

definition example_scan_state :: scan_state where
  "example_scan_state = \<lparr>buffer = [], delivered = [], ticks = 0\<rparr>"

text \<open>A command that starts with pid 42, calls \<open>exit(3)\<close>, and whose output is drained after a second.\<close>

definition example_start_env :: start_env where
  "example_start_env =
     \<lparr>spawn_result = Inr 42, wait_result = Some (ExitError (WaitStatus (exit_wait_status 3))),
      drain_after = Some Second, drain_tie = False\<rparr>"

text \<open>A command that ignores every signal: signals are delivered and the done channel stays open.\<close>

definition example_kill_env :: kill_env where
  "example_kill_env =
     \<lparr>taskkill_result = None, signal_result = (\<lambda>s. None), done_after = None, select_tie = False\<rparr>"

text \<open>A command that has exited already: delivering a signal fails.\<close>

definition example_exited_kill_env :: kill_env where
  "example_exited_kill_env =
     \<lparr>taskkill_result = Some (Err ''exit status 128''),
      signal_result = (\<lambda>s. Some (Err ''os: process already finished'')),
      done_after = Some 0, select_tie = True\<rparr>"

text \<open>
  \<open>path/filepath\<close> on Unix, for the example file system below: \<open>IsAbs\<close>, \<open>Clean\<close>,
  \<open>Abs\<close> in the working directory \<open>cwd\<close>, and \<open>Rel\<close>, element by element.
\<close>

definition unix_IsAbs :: "string \<Rightarrow> bool" where
  "unix_IsAbs path = HasPrefix path ''/''"

fun clean_elems :: "bool \<Rightarrow> string list \<Rightarrow> string list \<Rightarrow> string list" where
  "clean_elems rooted [] out = out"
| "clean_elems rooted (e # es) out =
     (if e = [] \<or> e = ''.'' then clean_elems rooted es out
      else if e = ''..'' then
        (if out \<noteq> [] \<and> last out \<noteq> ''..'' then clean_elems rooted es (butlast out)
         else if rooted then clean_elems rooted es out
         else clean_elems rooted es (out @ [e]))
      else clean_elems rooted es (out @ [e]))"

fun join_elems :: "string list \<Rightarrow> string" where
  "join_elems [] = []"
| "join_elems [e] = e"
| "join_elems (e # es) = e @ ''/'' @ join_elems es"

definition unix_Clean :: "string \<Rightarrow> string" where
  "unix_Clean path =
     (let rooted = unix_IsAbs path;
          out = clean_elems rooted (Split path CHR ''/'') []
      in if rooted then ''/'' @ join_elems out
         else if out = [] then ''.'' else join_elems out)"

definition unix_Abs :: "string \<Rightarrow> string \<Rightarrow> error + string" where
  "unix_Abs cwd path =
     (if unix_IsAbs path then Inr (unix_Clean path) else Inr (unix_Clean (cwd @ ''/'' @ path)))"

fun strip_common :: "string list \<Rightarrow> string list \<Rightarrow> string list \<times> string list" where
  "strip_common (b # bs) (t # ts) = (if b = t then strip_common bs ts else (b # bs, t # ts))"
| "strip_common bs ts = (bs, ts)"

definition path_elems :: "string \<Rightarrow> string list" where
  "path_elems path = filter (\<lambda>e. e \<noteq> []) (Split path CHR ''/'')"

definition unix_Rel :: "string \<Rightarrow> string \<Rightarrow> error + string" where
  "unix_Rel basepath targpath =
     (let base = unix_Clean basepath; targ = unix_Clean targpath
      in if targ = base then Inr ''.''
         else
           let base' = (if base = ''.'' then [] else base)
           in if unix_IsAbs base' \<noteq> unix_IsAbs targ
              then Inl (Err (''Rel: can't make '' @ targpath @ '' relative to '' @ basepath))
              else
                (case strip_common (path_elems base') (path_elems targ) of
                   (bs, ts) \<Rightarrow>
                     if take 1 bs = [''..'']
                     then Inl (Err (''Rel: can't make '' @ targpath @ '' relative to '' @ basepath))
                     else Inr (join_elems (replicate (length bs) ''..'' @ ts))))"

text \<open>
  An example file system. The working directory is \<open>/home/u\<close>. There are two files of
  five bytes, \<open>/tmp/a.txt\<close> and \<open>/home/u/b.txt\<close>, and a file \<open>/home/u/bad.bin\<close>
  that opens, reports five bytes, and fails with an I/O error after two bytes have been
  read. \<open>example_digest\<close> stands in for SHA-1 and shows the bytes that were hashed.
\<close>

definition example_file :: os_File where
  "example_file = \<lparr>file_Stat = Inr 5, read_bytes = ''hello'', read_error = None\<rparr>"

definition example_bad_file :: os_File where
  "example_bad_file =
     \<lparr>file_Stat = Inr 5, read_bytes = ''he'',
      read_error = Some (Err ''read /home/u/bad.bin: input/output error'')\<rparr>"

definition example_digest :: "string \<Rightarrow> string" where
  "example_digest bytes = ''sha1('' @ bytes @ '')''"

definition example_os_env :: os_env where
  "example_os_env =
     \<lparr>os_Getwd = Inr ''/home/u'',
      zglob_Glob = (\<lambda>globPath.
         if globPath = ''/tmp/a.txt'' then Inr [''/tmp/a.txt'']
         else if globPath = ''b.txt'' then Inr [''b.txt'']
         else if globPath = ''bad.bin'' then Inr [''bad.bin'']
         else Inl ErrNotExist),
      filepath_Abs = unix_Abs ''/home/u'',
      os_Stat = (\<lambda>path.
         if path = ''/tmp/a.txt'' \<or> path = ''/home/u/b.txt'' \<or> path = ''/home/u/bad.bin''
         then Inr False else Inl ErrNotExist),
      filepath_IsAbs = unix_IsAbs,
      filepath_VolumeName = (\<lambda>path. []),
      filepath_Rel = unix_Rel,
      os_Open = (\<lambda>path.
         if path = ''/tmp/a.txt'' \<or> path = ''/home/u/b.txt'' then Inr example_file
         else if path = ''/home/u/bad.bin'' then Inr example_bad_file
         else Inl ErrNotExist),
      sha1_hex = example_digest\<rparr>"

text \<open>
  An example backend: it gives the artifact of path \<open>p\<close> the identifier \<open>id:p\<close>,
  every upload of \<open>b.log\<close> fails, every other upload and every update succeeds, and
  the pool has two workers.
\<close>

definition example_backend :: backend where
  "example_backend =
     \<lparr>uploader_Setup = (\<lambda>uploader Destination. None),
      uploader_URL = (\<lambda>uploader artifact. ''https://uploads.example/'' @ Path artifact),
      batch_Create = (\<lambda>artifacts. Inr (map (\<lambda>artifact. artifact\<lparr>ID := ''id:'' @ Path artifact\<rparr>) artifacts)),
      uploader_Upload = (\<lambda>uploader artifact attempt.
         if Path artifact = ''b.log'' then Some (Err ''upload failed'') else None),
      Artifacts_Update = (\<lambda>states attempt. None),
      MaxConcurrencyLimit = 2\<rparr>"

definition example_artifact :: "string \<Rightarrow> Artifact" where
  "example_artifact name =
     \<lparr>ID = [], Path = name, AbsolutePath = ''/home/u/'' @ name, GlobPath = ''*.log'',
      FileSize = 5, Sha1Sum = example_digest ''hello'', URL = []\<rparr>"

definition example_artifacts :: "Artifact list" where
  "example_artifacts = [example_artifact ''a.log'', example_artifact ''b.log'', example_artifact ''c.log'']"

text \<open>
  Two schedules for the three artifacts. In the first each goroutine reads \<open>err\<close> right
  after it has assigned it. In the second the worker of \<open>b.log\<close> assigns its error to
  \<open>err\<close>, then the worker of \<open>a.log\<close> assigns nil, and only then the worker of
  \<open>b.log\<close> tests \<open>err\<close>.
\<close>

definition example_schedule :: "thread list" where
  "example_schedule =
     [Worker 0, Worker 1, Worker 0, Worker 0, Worker 0,
      Worker 2, Worker 2, Worker 2, Worker 2,
      Reporter, Reporter, Reporter, Reporter,
      Worker 1, Worker 1, Worker 1, Worker 1,
      Reporter, Reporter, Reporter, Reporter, Reporter]"

definition example_racing_schedule :: "thread list" where
  "example_racing_schedule =
     [Worker 0, Worker 1, Worker 1, Worker 0, Worker 1, Worker 1, Worker 0, Worker 0,
      Worker 2, Worker 2, Worker 2, Worker 2,
      Reporter, Reporter, Reporter, Reporter, Reporter]"

text \<open>Two backends for the retried requests of the commands.\<close>

definition example_pipeline_backend :: "nat \<Rightarrow> error option" where
  "example_pipeline_backend attempt =
     (if attempt = 1 then Some (Err ''connection reset'') else Some (ErrorResponse 422))"

definition example_annotate_backend :: "nat \<Rightarrow> nat option \<times> error option" where
  "example_annotate_backend attempt =
     (if attempt = 1 then (None, Some (Err ''connection reset''))
      else (Some 404, Some (ErrorResponse 404)))"

section \<open>Properties of the exit status\<close>

lemma string_of_int_0: "string_of_int 0 = ''0''"
  by (simp add: string_of_int_def string_of_nat.simps digit_char_def)

lemma string_of_int_minus_1: "string_of_int (- 1) = ''-1''"
  by (simp add: string_of_int_def string_of_nat.simps digit_char_def)

lemma digit_value_digit_char: "d < 10 \<Longrightarrow> digit_value (digit_char d) = d"
proof -
  assume "d < 10"
  then have "d \<in> {0, 1, 2, 3, 4, 5, 6, 7, 8, 9}" by auto
  then show ?thesis by (auto simp: digit_value_def digit_char_def)
qed

lemma decimal_value_string_of_nat: "decimal_value (string_of_nat n) = n"
proof (induction n rule: string_of_nat.induct)
  case (1 n)
  show ?case
  proof (cases "n < 10")
    case True
    then show ?thesis
      by (simp add: string_of_nat.simps [of n] decimal_value_def digit_value_digit_char)
  next
    case False
    then have "decimal_value (string_of_nat (n div 10)) = n div 10"
      using 1 by simp
    then show ?thesis
      using False
      by (simp add: string_of_nat.simps [of n] decimal_value_def digit_value_digit_char)
  qed
qed

lemma mask8: "(0xFF :: 32 word) = mask 8"
  by (simp add: mask_eq_exp_minus_1)

lemma mask7: "(0x7F :: 32 word) = mask 7"
  by (simp add: mask_eq_exp_minus_1)

lemma mod256: "(n::nat) mod 256 = take_bit 8 n"
  by (simp add: take_bit_eq_mod)

lemma ws_Exited_exit: "ws_Exited (exit_wait_status n)"
  unfolding ws_Exited_def exit_wait_status_def mask7
  by (rule bit_word_eqI) (auto simp: bit_simps)

lemma exit_code_bits:
  "drop_bit 8 (exit_wait_status n) AND 0xFF = (word_of_nat (n mod 256) :: 32 word)"
  unfolding exit_wait_status_def mask8 mod256
  by (rule bit_word_eqI) (auto simp: bit_simps)

lemma uint_exit_code: "uint (word_of_nat (n mod 256) :: 32 word) = int (n mod 256)"
proof -
  have "unat (word_of_nat (n mod 256) :: 32 word) = n mod 256"
    by (intro of_nat_inverse [OF refl]) simp
  then show ?thesis by (simp only: uint_nat)
qed

lemma ws_ExitStatus_exit: "ws_ExitStatus (exit_wait_status n) = int (n mod 256)"
  by (simp only: ws_ExitStatus_def ws_Exited_exit exit_code_bits uint_exit_code
      not_True_eq_False if_False)

text \<open>
  Claim C7. The exit status string is \<open>"0"\<close> when the wait reports no error; for a child
  that exits with code \<open>n\<close>, \<open>1 \<le> n \<le> 255\<close>, it is \<open>n\<close> in decimal; and it is
  \<open>"-1"\<close> when no exit code can be extracted: the error is no \<open>*exec.ExitError\<close>, its
  \<open>Sys()\<close> is no \<open>syscall.WaitStatus\<close>, or the wait status is not one of an exit.
\<close>

theorem getExitStatus_encoding:
  assumes "1 \<le> n" and "n \<le> 255"
  shows "getExitStatus None = ''0''
    \<and> getExitStatus (Some (ExitError (WaitStatus (exit_wait_status n)))) = string_of_nat n
    \<and> decimal_value (getExitStatus (Some (ExitError (WaitStatus (exit_wait_status n))))) = n
    \<and> getExitStatus (Some (ExitError OtherSys)) = ''-1''
    \<and> getExitStatus (Some (OtherWaitError m)) = ''-1''
    \<and> (\<not> ws_Exited s \<longrightarrow> getExitStatus (Some (ExitError (WaitStatus s))) = ''-1'')"
proof -
  have n: "n mod 256 = n" using assms by simp
  have "getExitStatus (Some (ExitError (WaitStatus (exit_wait_status n)))) = string_of_nat n"
    by (simp add: ws_ExitStatus_exit n string_of_int_def)
  moreover have "\<not> ws_Exited s \<longrightarrow> getExitStatus (Some (ExitError (WaitStatus s))) = ''-1''"
    by (simp add: ws_ExitStatus_def string_of_int_minus_1)
  ultimately show ?thesis
    by (simp add: string_of_int_0 string_of_int_minus_1 decimal_value_string_of_nat)
qed

theorem getExitStatus_encoding_witness:
  "(1::nat) \<le> 3 \<and> (3::nat) \<le> 255
    \<and> getExitStatus (Some (ExitError (WaitStatus (exit_wait_status 3)))) = ''3''
    \<and> \<not> ws_Exited 9 \<and> getExitStatus (Some (ExitError (WaitStatus 9))) = ''-1''"
proof -
  have e: "\<not> ws_Exited 9" by (simp add: ws_Exited_def)
  have s: "string_of_nat 3 = ''3''" by (simp add: string_of_nat.simps digit_char_def)
  show ?thesis
    using getExitStatus_encoding [of 3 "''x''" 9] e s by simp
qed

section \<open>Properties of the line scanner\<close>

lemma plus_not_space: "\<not> is_space CHR ''+''"
  by (simp add: is_space_def)

lemma dropWhile_space_prefix:
  assumes "list_all is_space ws"
  shows "dropWhile is_space (ws @ ''+++'' @ rest) = ''+++'' @ rest"
proof -
  have "\<forall>c\<in>set ws. is_space c" using assms by (simp add: list_all_iff)
  then have "dropWhile is_space (ws @ ''+++'' @ rest) = dropWhile is_space (''+++'' @ rest)"
    by (simp add: dropWhile_append)
  then show ?thesis by (simp add: plus_not_space)
qed

text \<open>The matcher accepts exactly the texts of the regular expression.\<close>

lemma MatchString_iff: "MatchString s \<longleftrightarrow> s \<in> headerExpansionRegex"
proof
  assume m: "MatchString s"
  define r where "r = drop 3 s"
  define r' where "r' = dropWhile is_space r"
  have s: "s = ''^^^'' @ r" using m unfolding MatchString_def r_def Let_def
    by (metis append_take_drop_id)
  have r: "r = takeWhile is_space r @ r'" by (simp add: r'_def)
  have ne: "takeWhile is_space r \<noteq> []"
    using m r unfolding MatchString_def Let_def r_def [symmetric] r'_def [symmetric]
    by (metis append_Nil less_irrefl)
  have r'2: "r' = ''+++'' @ drop 3 r'"
    using m unfolding MatchString_def Let_def r_def [symmetric] r'_def [symmetric]
    by (metis append_take_drop_id)
  have sp: "list_all is_space (drop 3 r')"
    using m unfolding MatchString_def Let_def r_def [symmetric] r'_def [symmetric] by simp
  have tw: "list_all is_space (takeWhile is_space r)"
    by (simp add: list_all_iff) (meson set_takeWhileD)
  have "s = ''^^^'' @ takeWhile is_space r @ ''+++'' @ drop 3 r'"
    using s r r'2 by metis
  then show "s \<in> headerExpansionRegex"
    unfolding headerExpansionRegex_def using ne tw sp by blast
next
  assume "s \<in> headerExpansionRegex"
  then obtain ws1 ws2 where s: "s = ''^^^'' @ ws1 @ ''+++'' @ ws2"
    and ne: "ws1 \<noteq> []" and w1: "list_all is_space ws1" and w2: "list_all is_space ws2"
    unfolding headerExpansionRegex_def by blast
  have d: "dropWhile is_space (ws1 @ ''+++'' @ ws2) = ''+++'' @ ws2"
    by (rule dropWhile_space_prefix [OF w1])
  show "MatchString s"
    unfolding MatchString_def Let_def s using ne w2 d by simp
qed

text \<open>A stream of complete lines is processed line by line, in stream order.\<close>

lemma scan_lines_complete:
  "scan_lines p clk (map (\<lambda>l. (l, False)) ls) None st
     = foldl (\<lambda>s l. process_line p clk l s) st ls"
  by (induction ls arbitrary: st) simp_all

text \<open>
  Claim C5, as stated, fails: a line of the shape \<open>^^^ +++\<close> with white space in front
  of it does not match \<open>headerExpansionRegex\<close>, whose anchor \<open>^\<close> is followed by the
  carets at once, and so it is written with a timestamp.
\<close>

theorem marker_with_leading_space_is_timestamped:
  "spec_marker_shape '' ^^^ +++''
   \<and> buffer (process_line example_process example_clock '' ^^^ +++'' example_scan_state)
       = ''[2018-01-01T00:00:00Z]  ^^^ +++'' @ [CHR 0x0A]
   \<and> buffer (process_line example_process example_clock '' ^^^ +++'' example_scan_state)
       \<noteq> buffer example_scan_state @ '' ^^^ +++'' @ [CHR 0x0A]"
  by (simp add: spec_marker_shape_def is_space_def process_line_def example_process_def
      example_clock_def example_scan_state_def MatchString_def Let_def)

text \<open>
  Claim C5, amended. With timestamps on, a line whose preprocessed text passes the
  callback filter or matches \<open>headerExpansionRegex\<close> (three carets, one or more
  white-space characters, three plus signs, then only white space; nothing in front)
  is appended to the buffer as it was read, followed by a newline; every other line is
  appended as \<open>[<time>] <line>\<close> and a newline, the time being the clock's reading.
\<close>

theorem process_line_timestamp:
  assumes "Timestamp p"
  shows "buffer (process_line p clk line st) =
     (if LineCallbackFilter p (LinePreProcessor p line)
         \<or> LinePreProcessor p line \<in> headerExpansionRegex
      then buffer st @ line @ [CHR 0x0A]
      else buffer st @ ''['' @ clk (ticks st) @ ''] '' @ line @ [CHR 0x0A])"
  using assms by (simp add: process_line_def Let_def MatchString_iff)

theorem process_line_timestamp_witness:
  "Timestamp example_process
   \<and> buffer (process_line example_process example_clock ''^^^ +++'' example_scan_state)
       = ''^^^ +++'' @ [CHR 0x0A]
   \<and> buffer (process_line example_process example_clock ''hello'' example_scan_state)
       = ''[2018-01-01T00:00:00Z] hello'' @ [CHR 0x0A]"
proof -
  have t: "Timestamp example_process" by (simp add: example_process_def)
  have m: "LinePreProcessor example_process ''^^^ +++'' \<in> headerExpansionRegex"
    unfolding MatchString_iff [symmetric]
    by (simp add: example_process_def MatchString_def is_space_def)
  have n: "LinePreProcessor example_process ''hello'' \<notin> headerExpansionRegex"
    unfolding MatchString_iff [symmetric]
    by (simp add: example_process_def MatchString_def)
  have f: "\<not> LineCallbackFilter example_process s" for s
    by (simp add: example_process_def)
  show ?thesis
    using process_line_timestamp [OF t, of example_clock "''^^^ +++''" example_scan_state]
      process_line_timestamp [OF t, of example_clock "''hello''" example_scan_state] t m n f
    by (simp add: example_clock_def example_scan_state_def)
qed

section \<open>Properties of Start\<close>

text \<open>
  Claim C1, as stated, fails: \<open>Start\<close> closes the done channel before it sets the exit
  status and before it waits for the wait group. For a command that calls \<open>exit(3)\<close>, the
  done channel is closed at the eighth step, where the exit status is still empty; it is
  \<open>3\<close> when \<open>Start\<close> returns.
\<close>

theorem Start_closes_done_before_exit_status:
  "map fst (snd (snd (Start example_start_env example_process)))
     = [CommandStarted, RunningSet True, ScannerSpawned, StartCallbackSpawned, CommandWaited,
        LineWriterClosed, RunningSet False, DoneClosed, ExitStatusSet, TimeoutWaited Second]
   \<and> fst (snd (snd (Start example_start_env example_process)) ! 7) = DoneClosed
   \<and> done_chan (snd (snd (snd (Start example_start_env example_process)) ! 7)) = ClosedChan
   \<and> ExitStatus (snd (snd (snd (Start example_start_env example_process)) ! 7)) = []
   \<and> ExitStatus (fst (snd (Start example_start_env example_process))) = ''3''"
proof -
  have e: "string_of_int (ws_ExitStatus (exit_wait_status 3)) = ''3''"
    by (simp add: ws_ExitStatus_exit string_of_int_def string_of_nat.simps digit_char_def)
  show ?thesis
    by (simp add: Start_def example_start_env_def example_process_def IsRunning_def
        setRunning_def timeoutWait_def Second_def Let_def e)
qed

text \<open>
  Claim C1, amended. When \<open>Start\<close> returns nil, its steps were, in this order: the
  command was started and the running flag set, the goroutines were spawned,
  \<open>command.Wait()\<close> returned, the line writer pipe was closed, the running flag was
  cleared, and then the done channel, open until then, was closed, once. At that moment
  the process is not running and its exit status is still what it was before \<open>Start\<close>.
  Only after that the exit status is set, to \<open>getExitStatus\<close> of the wait result, and
  last comes \<open>timeoutWait\<close>: it lasts as long as the wait group needs when that is less
  than ten seconds, and ten seconds when the wait group needs more or never finishes.
\<close>

theorem Start_done_order:
  assumes "Start env p = (Returned None, p', tr)"
  shows "\<exists>pre r q w.
        tr = pre @ [(LineWriterClosed, r\<lparr>running := True\<rparr>), (RunningSet False, r),
                    (DoneClosed, q), (ExitStatusSet, p'), (TimeoutWaited w, p')]
      \<and> map fst pre = [CommandStarted, RunningSet True]
            @ (if PTY p then [PTYCopySpawned] else [])
            @ [ScannerSpawned, StartCallbackSpawned, CommandWaited]
      \<and> count_list (map fst tr) DoneClosed = 1
      \<and> \<not> running r \<and> done_chan r = OpenChan \<and> ExitStatus r = ExitStatus p
      \<and> q = r\<lparr>done_chan := ClosedChan\<rparr>
      \<and> p' = q\<lparr>ExitStatus := getExitStatus (wait_result env)\<rparr>
      \<and> w = snd (timeoutWait (drain_after env) (drain_tie env))
      \<and> w \<le> 10 * Second
      \<and> (\<forall>t. drain_after env = Some t \<and> t < 10 * Second \<longrightarrow> w = t)
      \<and> (\<forall>t. drain_after env = Some t \<and> 10 * Second < t \<longrightarrow> w = 10 * Second)
      \<and> (drain_after env = None \<longrightarrow> w = 10 * Second)"
proof -
  from assms obtain pid where sp: "spawn_result env = Inr pid" and nr: "\<not> running p"
    and nc: "done_chan p \<noteq> ClosedChan"
    by (auto simp: Start_def IsRunning_def setRunning_def Let_def
        split: if_splits sum.splits prod.splits)
  define p0 where "p0 = (if done_chan p = NilChan then p\<lparr>done_chan := OpenChan\<rparr> else p)"
  define r where "r = p0\<lparr>command_started := True, Pid := pid, running := False\<rparr>"
  define w where "w = snd (timeoutWait (drain_after env) (drain_tie env))"
  define pre where "pre =
      [(CommandStarted, p0\<lparr>command_started := True, Pid := pid\<rparr>),
       (RunningSet True, r\<lparr>running := True\<rparr>)]
      @ (if PTY p then [(PTYCopySpawned, r\<lparr>running := True\<rparr>)] else [])
      @ [(ScannerSpawned, r\<lparr>running := True\<rparr>), (StartCallbackSpawned, r\<lparr>running := True\<rparr>),
         (CommandWaited, r\<lparr>running := True\<rparr>)]"
  have d0: "done_chan p0 = OpenChan" using nc by (cases "done_chan p") (auto simp: p0_def)
  have st: "Start env p
      = (Returned None, r\<lparr>done_chan := ClosedChan, ExitStatus := getExitStatus (wait_result env)\<rparr>,
         pre @ [(LineWriterClosed, r\<lparr>running := True\<rparr>), (RunningSet False, r),
           (DoneClosed, r\<lparr>done_chan := ClosedChan\<rparr>),
           (ExitStatusSet, r\<lparr>done_chan := ClosedChan, ExitStatus := getExitStatus (wait_result env)\<rparr>),
           (TimeoutWaited w, r\<lparr>done_chan := ClosedChan, ExitStatus := getExitStatus (wait_result env)\<rparr>)])"
    using sp nr d0
    by (simp add: Start_def IsRunning_def setRunning_def Let_def p0_def [symmetric] r_def w_def
        pre_def split: prod.splits)
  have wb: "w \<le> 10 * Second"
    by (auto simp: w_def timeoutWait_def split: option.splits)
  have w1: "\<forall>t. drain_after env = Some t \<and> t < 10 * Second \<longrightarrow> w = t"
    by (auto simp: w_def timeoutWait_def)
  have w2: "\<forall>t. drain_after env = Some t \<and> 10 * Second < t \<longrightarrow> w = 10 * Second"
    by (auto simp: w_def timeoutWait_def)
  have w3: "drain_after env = None \<longrightarrow> w = 10 * Second"
    by (auto simp: w_def timeoutWait_def)
  have rr: "\<not> running r" "done_chan r = OpenChan" "ExitStatus r = ExitStatus p"
    using d0 by (auto simp: r_def p0_def)
  have mp: "map fst pre = [CommandStarted, RunningSet True]
            @ (if PTY p then [PTYCopySpawned] else [])
            @ [ScannerSpawned, StartCallbackSpawned, CommandWaited]"
    by (simp add: pre_def)
  from st assms
  have p': "p' = r\<lparr>done_chan := ClosedChan, ExitStatus := getExitStatus (wait_result env)\<rparr>"
    and tr: "tr = pre @ [(LineWriterClosed, r\<lparr>running := True\<rparr>), (RunningSet False, r),
          (DoneClosed, r\<lparr>done_chan := ClosedChan\<rparr>), (ExitStatusSet, p'), (TimeoutWaited w, p')]"
    by simp_all
  have once: "count_list (map fst tr) DoneClosed = 1"
    by (simp add: tr mp)
  show ?thesis
    apply (rule exI [of _ pre])
    apply (rule exI [of _ r])
    apply (rule exI [of _ "r\<lparr>done_chan := ClosedChan\<rparr>"])
    apply (rule exI [of _ w])
    using tr p' rr wb w1 w2 w3 mp once by (simp add: w_def)
qed

theorem Start_done_order_witness:
  "\<exists>p' tr. Start example_start_env example_process = (Returned None, p', tr)
     \<and> (\<exists>pre r q w.
          tr = pre @ [(LineWriterClosed, r\<lparr>running := True\<rparr>), (RunningSet False, r),
                      (DoneClosed, q), (ExitStatusSet, p'), (TimeoutWaited w, p')]
          \<and> count_list (map fst tr) DoneClosed = 1
          \<and> \<not> running r \<and> ExitStatus q = [] \<and> ExitStatus p' = ''3'' \<and> w = Second)"
proof -
  obtain p' tr where s: "Start example_start_env example_process = (Returned None, p', tr)"
    by (simp add: Start_def example_start_env_def example_process_def IsRunning_def
        setRunning_def timeoutWait_def Second_def Let_def)
  have e: "getExitStatus (wait_result example_start_env) = ''3''"
    by (simp add: example_start_env_def ws_ExitStatus_exit string_of_int_def
        string_of_nat.simps digit_char_def)
  have d: "drain_after example_start_env = Some Second \<and> Second < 10 * Second"
    by (simp add: example_start_env_def Second_def)
  have x: "ExitStatus example_process = []" by (simp add: example_process_def)
  from Start_done_order [OF s] obtain pre r q w where
    h: "tr = pre @ [(LineWriterClosed, r\<lparr>running := True\<rparr>), (RunningSet False, r),
                    (DoneClosed, q), (ExitStatusSet, p'), (TimeoutWaited w, p')]"
      "count_list (map fst tr) DoneClosed = 1" "\<not> running r"
      "ExitStatus r = ExitStatus example_process" "q = r\<lparr>done_chan := ClosedChan\<rparr>"
      "p' = q\<lparr>ExitStatus := getExitStatus (wait_result example_start_env)\<rparr>"
      "\<forall>t. drain_after example_start_env = Some t \<and> t < 10 * Second \<longrightarrow> w = t"
    by blast
  have "w = Second" using h(7) d by blast
  moreover have "ExitStatus q = []" using h(4,5) x by simp
  moreover have "ExitStatus p' = ''3''" using h(6) e by simp
  ultimately show ?thesis using s h(1,2,3) by blast
qed

text \<open>
  The done channel is not closed a second time: a \<open>Start\<close> of a process whose done
  channel is closed panics when it comes to close it.
\<close>

lemma Start_again_panics:
  assumes "\<not> running p" and "done_chan p = ClosedChan" and "spawn_result env = Inr pid"
  shows "fst (Start env p) = Panicked ''close of closed channel''"
  using assms by (simp add: Start_def IsRunning_def setRunning_def Let_def)

section \<open>Properties of Kill\<close>

text \<open>
  Claim C6. \<open>Kill\<close> first asks the command to end with the means of the platform:
  \<open>SIGTERM\<close>, and on Windows, which has no such signal, the \<open>TASKKILL\<close> utility. When
  that request fails, \<open>Kill\<close> returns its error and does nothing more. Otherwise it waits
  for the done channel, for the grace period at most. When the channel is closed in time,
  \<open>Kill\<close> sends nothing more and returns nil. When it is not, \<open>Kill\<close> signals
  \<open>SIGKILL\<close> and returns what that delivery returned: nil when the signal was delivered,
  so the elapsed grace period alone is never an error. Before a command has been started
  \<open>signal\<close> has no process to signal, delivers nothing and returns nil. An error of
  \<open>Kill\<close> is always the error of a delivery. The last part says when the done channel
  counts as closed in time.
\<close>

theorem Kill_graceful_then_forceful:
  "(goos \<noteq> ''windows'' \<and> command_started p \<longrightarrow>
      (\<forall>e. signal_result env SIGTERM = Some e \<longrightarrow>
          Kill goos env p g = (Some e, p, [SignalSent SIGTERM (Pid p)]))
      \<and> (signal_result env SIGTERM = None \<and> done_first env (Done p) g \<longrightarrow>
          Kill goos env p g = (None, Done p, [SignalSent SIGTERM (Pid p), DoneObserved]))
      \<and> (signal_result env SIGTERM = None \<and> \<not> done_first env (Done p) g \<longrightarrow>
          Kill goos env p g
            = (signal_result env SIGKILL, Done p,
               [SignalSent SIGTERM (Pid p), GraceElapsed, SignalSent SIGKILL (Pid p)])))
   \<and> (goos = ''windows'' \<longrightarrow>
      (\<forall>e. taskkill_result env = Some e \<longrightarrow> Kill goos env p g = (Some e, p, [TaskKill (Pid p)]))
      \<and> (taskkill_result env = None \<and> done_first env (Done p) g \<longrightarrow>
          Kill goos env p g = (None, Done p, [TaskKill (Pid p), DoneObserved]))
      \<and> (taskkill_result env = None \<and> \<not> done_first env (Done p) g \<and> command_started p \<longrightarrow>
          Kill goos env p g
            = (signal_result env SIGKILL, Done p,
               [TaskKill (Pid p), GraceElapsed, SignalSent SIGKILL (Pid p)]))
      \<and> (taskkill_result env = None \<and> \<not> done_first env (Done p) g \<and> \<not> command_started p \<longrightarrow>
          Kill goos env p g = (None, Done p, [TaskKill (Pid p), GraceElapsed, NoProcessToSignal])))
   \<and> (goos \<noteq> ''windows'' \<and> \<not> command_started p \<longrightarrow>
      (done_first env (Done p) g \<longrightarrow>
          Kill goos env p g = (None, Done p, [NoProcessToSignal, DoneObserved]))
      \<and> (\<not> done_first env (Done p) g \<longrightarrow>
          Kill goos env p g = (None, Done p, [NoProcessToSignal, GraceElapsed, NoProcessToSignal])))
   \<and> (\<forall>e. fst (Kill goos env p g) = Some e \<longrightarrow>
        (goos = ''windows'' \<and> taskkill_result env = Some e)
        \<or> (goos \<noteq> ''windows'' \<and> command_started p \<and> signal_result env SIGTERM = Some e)
        \<or> (command_started p \<and> \<not> done_first env (Done p) g \<and> signal_result env SIGKILL = Some e))
   \<and> (done_first env (Done p) g \<longleftrightarrow>
        (done_chan p = ClosedChan \<and> (0 < g \<or> select_tie env))
        \<or> (done_chan p \<noteq> ClosedChan
            \<and> (\<exists>t. done_after env = Some t
                  \<and> (int t < max 0 g \<or> (int t = max 0 g \<and> select_tie env)))))"
proof -
  have cs: "command_started (Done p) = command_started p" "Pid (Done p) = Pid p"
    by (simp_all add: Done_def)
  have posix_started: "goos \<noteq> ''windows'' \<and> command_started p \<longrightarrow>
      (\<forall>e. signal_result env SIGTERM = Some e \<longrightarrow>
          Kill goos env p g = (Some e, p, [SignalSent SIGTERM (Pid p)]))
      \<and> (signal_result env SIGTERM = None \<and> done_first env (Done p) g \<longrightarrow>
          Kill goos env p g = (None, Done p, [SignalSent SIGTERM (Pid p), DoneObserved]))
      \<and> (signal_result env SIGTERM = None \<and> \<not> done_first env (Done p) g \<longrightarrow>
          Kill goos env p g
            = (signal_result env SIGKILL, Done p,
               [SignalSent SIGTERM (Pid p), GraceElapsed, SignalSent SIGKILL (Pid p)]))"
    by (auto simp: Kill_def signal_def cs Let_def split: option.splits)
  have windows: "goos = ''windows'' \<longrightarrow>
      (\<forall>e. taskkill_result env = Some e \<longrightarrow> Kill goos env p g = (Some e, p, [TaskKill (Pid p)]))
      \<and> (taskkill_result env = None \<and> done_first env (Done p) g \<longrightarrow>
          Kill goos env p g = (None, Done p, [TaskKill (Pid p), DoneObserved]))
      \<and> (taskkill_result env = None \<and> \<not> done_first env (Done p) g \<and> command_started p \<longrightarrow>
          Kill goos env p g
            = (signal_result env SIGKILL, Done p,
               [TaskKill (Pid p), GraceElapsed, SignalSent SIGKILL (Pid p)]))
      \<and> (taskkill_result env = None \<and> \<not> done_first env (Done p) g \<and> \<not> command_started p \<longrightarrow>
          Kill goos env p g = (None, Done p, [TaskKill (Pid p), GraceElapsed, NoProcessToSignal]))"
    by (auto simp: Kill_def signal_def cs Let_def split: option.splits)
  have posix_unstarted: "goos \<noteq> ''windows'' \<and> \<not> command_started p \<longrightarrow>
      (done_first env (Done p) g \<longrightarrow>
          Kill goos env p g = (None, Done p, [NoProcessToSignal, DoneObserved]))
      \<and> (\<not> done_first env (Done p) g \<longrightarrow>
          Kill goos env p g = (None, Done p, [NoProcessToSignal, GraceElapsed, NoProcessToSignal]))"
    by (auto simp: Kill_def signal_def cs Let_def)
  have errs: "\<forall>e. fst (Kill goos env p g) = Some e \<longrightarrow>
        (goos = ''windows'' \<and> taskkill_result env = Some e)
        \<or> (goos \<noteq> ''windows'' \<and> command_started p \<and> signal_result env SIGTERM = Some e)
        \<or> (command_started p \<and> \<not> done_first env (Done p) g \<and> signal_result env SIGKILL = Some e)"
    by (auto simp: Kill_def signal_def cs Let_def split: if_splits option.splits prod.splits)
  have df: "done_first env (Done p) g \<longleftrightarrow>
        (done_chan p = ClosedChan \<and> (0 < g \<or> select_tie env))
        \<or> (done_chan p \<noteq> ClosedChan
            \<and> (\<exists>t. done_after env = Some t
                  \<and> (int t < max 0 g \<or> (int t = max 0 g \<and> select_tie env))))"
    by (auto simp: done_first_def Done_def split: option.splits)
  show ?thesis
    using posix_started windows posix_unstarted errs df by blast
qed

theorem Kill_graceful_then_forceful_witness:
  "command_started example_running_process
   \<and> signal_result example_kill_env SIGTERM = None
   \<and> \<not> done_first example_kill_env (Done example_running_process) (10 * int Second)
   \<and> Kill ''linux'' example_kill_env example_running_process (10 * int Second)
       = (None, example_running_process,
          [SignalSent SIGTERM 42, GraceElapsed, SignalSent SIGKILL 42])
   \<and> done_first (example_kill_env\<lparr>done_after := Some Second\<rparr>) (Done example_running_process)
        (10 * int Second)
   \<and> Kill ''linux'' (example_kill_env\<lparr>done_after := Some Second\<rparr>) example_running_process
        (10 * int Second)
       = (None, example_running_process, [SignalSent SIGTERM 42, DoneObserved])
   \<and> signal_result example_exited_kill_env SIGTERM = Some (Err ''os: process already finished'')
   \<and> Kill ''linux'' example_exited_kill_env example_running_process (10 * int Second)
       = (Some (Err ''os: process already finished''), example_running_process,
          [SignalSent SIGTERM 42])
   \<and> Kill ''windows'' example_kill_env example_running_process (10 * int Second)
       = (None, example_running_process, [TaskKill 42, GraceElapsed, SignalSent SIGKILL 42])"
proof -
  have c: "command_started example_running_process" "Pid example_running_process = 42"
    "Done example_running_process = example_running_process"
    by (simp_all add: example_running_process_def example_process_def Done_def)
  have t: "signal_result example_kill_env SIGTERM = None"
    "signal_result example_kill_env SIGKILL = None" "taskkill_result example_kill_env = None"
    "signal_result (example_kill_env\<lparr>done_after := Some Second\<rparr>) SIGTERM = None"
    by (simp_all add: example_kill_env_def)
  have n: "\<not> done_first example_kill_env (Done example_running_process) (10 * int Second)"
    by (simp add: done_first_def example_kill_env_def example_running_process_def
        example_process_def Done_def)
  have d: "done_first (example_kill_env\<lparr>done_after := Some Second\<rparr>)
      (Done example_running_process) (10 * int Second)"
    by (simp add: done_first_def example_kill_env_def example_running_process_def
        example_process_def Done_def Second_def)
  have x: "signal_result example_exited_kill_env SIGTERM = Some (Err ''os: process already finished'')"
    by (simp add: example_exited_kill_env_def)
  have w: "''linux'' \<noteq> ''windows''" by simp
  show ?thesis
    using Kill_graceful_then_forceful [of "''linux''" example_running_process example_kill_env
        "10 * int Second"]
      Kill_graceful_then_forceful [of "''linux''" example_running_process
        "example_kill_env\<lparr>done_after := Some Second\<rparr>" "10 * int Second"]
      Kill_graceful_then_forceful [of "''linux''" example_running_process example_exited_kill_env
        "10 * int Second"]
      Kill_graceful_then_forceful [of "''windows''" example_running_process example_kill_env
        "10 * int Second"]
      c t n d x w
    by simp
qed

section \<open>Properties of the retried requests\<close>

text \<open>An attempt that succeeds or breaks is the last one.\<close>

lemma retry_attempts_last:
  assumes "attempt \<le> k" and "k \<le> snd (retry_attempts operation maximum attempt)"
    and "fst (operation \<lparr>Attempt = k, Maximum = maximum, breakNow = False\<rparr>) = None
         \<or> breakNow (snd (operation \<lparr>Attempt = k, Maximum = maximum, breakNow = False\<rparr>))"
  shows "retry_attempts operation maximum attempt
         = (fst (operation \<lparr>Attempt = k, Maximum = maximum, breakNow = False\<rparr>), k)"
  using assms
proof (induction operation maximum attempt rule: retry_attempts.induct)
  case (1 operation maximum attempt)
  let ?r = "operation \<lparr>Attempt = attempt, Maximum = maximum, breakNow = False\<rparr>"
  show ?case
  proof (cases "fst ?r = None \<or> breakNow (snd ?r) \<or> maximum \<le> attempt")
    case True
    then have "snd (retry_attempts operation maximum attempt) = attempt"
      by (auto simp: retry_attempts.simps [of operation maximum attempt] Let_def)
    then have "k = attempt" using 1(2,3) by simp
    then show ?thesis using 1(4) True
      by (auto simp: retry_attempts.simps [of operation maximum attempt] Let_def)
  next
    case False
    then have eq: "retry_attempts operation maximum attempt
        = retry_attempts operation maximum (Suc attempt)"
      by (auto simp: retry_attempts.simps [of operation maximum attempt] Let_def)
    have "k \<noteq> attempt" using False 1(4) by auto
    then have "Suc attempt \<le> k" using 1(2) by simp
    moreover have "k \<le> snd (retry_attempts operation maximum (Suc attempt))"
      using 1(3) eq by simp
    ultimately show ?thesis
      using 1(1) [OF refl] False 1(4) eq by auto
  qed
qed

lemma Do_last:
  assumes "1 \<le> k" and "k \<le> snd (Do operation maximum)"
    and "fst (operation \<lparr>Attempt = k, Maximum = maximum, breakNow = False\<rparr>) = None
         \<or> breakNow (snd (operation \<lparr>Attempt = k, Maximum = maximum, breakNow = False\<rparr>))"
  shows "Do operation maximum
         = (fst (operation \<lparr>Attempt = k, Maximum = maximum, breakNow = False\<rparr>), k)"
proof -
  have "maximum \<noteq> 0" using assms(1,2) by (auto simp: Do_def split: if_splits)
  then show ?thesis
    using assms retry_attempts_last [of 1 k operation maximum] by (simp add: Do_def)
qed

text \<open>\<open>Do\<close> invokes the operation \<open>maximum\<close> times at most.\<close>

lemma retry_attempts_bound:
  "attempt \<le> maximum \<Longrightarrow> snd (retry_attempts operation maximum attempt) \<le> maximum"
proof (induction operation maximum attempt rule: retry_attempts.induct)
  case (1 operation maximum attempt)
  then show ?case
    by (auto simp: retry_attempts.simps [of operation maximum attempt] Let_def)
qed

lemma Do_bound: "snd (Do operation maximum) \<le> maximum"
  using retry_attempts_bound [of 1 maximum operation] by (auto simp: Do_def)

text \<open>
  Claim C9. When an attempt of the pipeline upload is answered with an error response of
  status 422, or an attempt of the annotation with a response of status 401, 404 or 400,
  the callback breaks and that attempt is the last: the number of attempts made is the
  number of that attempt, however many of the five remain, and the result is the error of
  that attempt.
\<close>

theorem rejected_request_is_not_retried:
  "(1 \<le> k \<and> k \<le> snd (pipeline_upload_retry backend) \<and> backend k = Some (ErrorResponse 422)
      \<longrightarrow> pipeline_upload_retry backend = (Some (ErrorResponse 422), k))
   \<and> (1 \<le> j \<and> j \<le> snd (annotate_retry backend') \<and> backend' j = (Some c, e)
       \<and> (c = 401 \<or> c = 404 \<or> c = 400)
      \<longrightarrow> annotate_retry backend' = (e, j))"
proof (intro conjI impI)
  assume "1 \<le> k \<and> k \<le> snd (pipeline_upload_retry backend) \<and> backend k = Some (ErrorResponse 422)"
  then show "pipeline_upload_retry backend = (Some (ErrorResponse 422), k)"
    unfolding pipeline_upload_retry_def
    using Do_last [of k "\<lambda>s. pipeline_upload_callback (backend (Attempt s)) s" 5]
    by (simp add: pipeline_upload_callback_def Break_def)
next
  assume "1 \<le> j \<and> j \<le> snd (annotate_retry backend') \<and> backend' j = (Some c, e)
       \<and> (c = 401 \<or> c = 404 \<or> c = 400)"
  then show "annotate_retry backend' = (e, j)"
    unfolding annotate_retry_def
    using Do_last [of j "\<lambda>s. annotate_callback (backend' (Attempt s)) s" 5]
    by (auto simp: annotate_callback_def Break_def)
qed

theorem rejected_request_is_not_retried_witness:
  "pipeline_upload_retry example_pipeline_backend = (Some (ErrorResponse 422), 2)
   \<and> example_pipeline_backend 2 = Some (ErrorResponse 422)
   \<and> annotate_retry example_annotate_backend = (Some (ErrorResponse 404), 2)
   \<and> example_annotate_backend 2 = (Some 404, Some (ErrorResponse 404))"
proof -
  have p: "snd (pipeline_upload_retry example_pipeline_backend) = 2" by code_simp
  have a: "snd (annotate_retry example_annotate_backend) = 2" by code_simp
  have bp: "example_pipeline_backend 2 = Some (ErrorResponse 422)"
    by (simp add: example_pipeline_backend_def)
  have ba: "example_annotate_backend 2 = (Some 404, Some (ErrorResponse 404))"
    by (simp add: example_annotate_backend_def)
  show ?thesis
    using rejected_request_is_not_retried [of 2 example_pipeline_backend 2 example_annotate_backend
        404 "Some (ErrorResponse 404)"] p a bp ba
    by simp
qed

section \<open>Properties of the collector\<close>

text \<open>A file that cannot be opened, or whose \<open>Stat\<close> fails, is an error of \<open>build\<close>.\<close>

lemma build_open_error:
  "os_Open env absolutePath = Inl e \<Longrightarrow> build env path absolutePath globPath = Inl e"
  by (simp add: build_def)

lemma build_stat_error:
  "os_Open env absolutePath = Inr f \<Longrightarrow> file_Stat f = Inl e
     \<Longrightarrow> build env path absolutePath globPath = Inl e"
  by (simp add: build_def)

text \<open>
  Claim C3, on the code: \<open>build\<close> drops the error of \<open>io.Copy\<close>. A file that opens and
  then fails while it is read does not abort the collection: \<open>Collect\<close> returns its
  artifact, with the checksum of the two bytes that were read of five.
\<close>

theorem Collect_ignores_read_error:
  "os_Open example_os_env ''/home/u/bad.bin'' = Inr example_bad_file
   \<and> snd (io_Copy example_bad_file) = Some (Err ''read /home/u/bad.bin: input/output error'')
   \<and> Collect ''linux'' example_os_env ''bad.bin''
     = Inr [\<lparr>ID = [], Path = ''bad.bin'', AbsolutePath = ''/home/u/bad.bin'',
             GlobPath = ''bad.bin'', FileSize = 5, Sha1Sum = example_digest ''he'', URL = []\<rparr>]"
  by code_simp

text \<open>
  Claim C4, on the code: once a file of an absolute glob has been collected, \<open>wd\<close> is the
  root for every later glob of the same \<open>Paths\<close>. In the working directory \<open>/home/u\<close>
  the relative glob \<open>b.txt\<close> gives the path \<open>b.txt\<close> alone or in front of an absolute
  glob, and \<open>home/u/b.txt\<close> behind one.
\<close>

theorem Collect_absolute_glob_changes_later_base:
  "map_sum id (map Path) (Collect ''linux'' example_os_env ''/tmp/a.txt;b.txt'')
     = Inr [''tmp/a.txt'', ''home/u/b.txt'']
   \<and> map_sum id (map Path) (Collect ''linux'' example_os_env ''b.txt'') = Inr [''b.txt'']
   \<and> map_sum id (map Path) (Collect ''linux'' example_os_env ''b.txt;/tmp/a.txt'')
     = Inr [''b.txt'', ''tmp/a.txt'']"
  by code_simp

section \<open>Properties of the upload\<close>

text \<open>The steps of the goroutines only add to the calls made so far.\<close>

lemma worker_step_events:
  "worker_step be uploader artifacts i s = Some s' \<Longrightarrow> \<exists>rest. events s' = events s @ rest"
  unfolding worker_step_def Let_def
  by (cases "workers s ! i") (auto split: if_splits)

lemma reporter_step_events:
  "reporter_step be artifacts s = Some s' \<Longrightarrow> \<exists>rest. events s' = events s @ rest"
  unfolding reporter_step_def Let_def
  by (cases "reporter s") (auto split: if_splits)

lemma step_events:
  "step be uploader artifacts t s = Some s' \<Longrightarrow> \<exists>rest. events s' = events s @ rest"
  by (cases t) (auto dest: worker_step_events reporter_step_events)

lemma run_events:
  "run be uploader artifacts schedule s = Some s' \<Longrightarrow> \<exists>rest. events s' = events s @ rest"
proof (induction schedule arbitrary: s)
  case Nil
  then show ?case by simp
next
  case (Cons t schedule)
  then obtain s1 where s1: "step be uploader artifacts t s = Some s1"
    and r: "run be uploader artifacts schedule s1 = Some s'"
    by (auto split: option.splits)
  from step_events [OF s1] Cons.IH [OF r] show ?case by auto
qed

lemma HasPrefix_nonempty: "HasPrefix s (c # cs) \<Longrightarrow> s \<noteq> []"
  by (auto simp: HasPrefix_def)

lemma select_s3: "HasPrefix Destination ''s3://'' \<Longrightarrow> select_uploader Destination = Inr S3Uploader"
  using HasPrefix_nonempty [of Destination] by (auto simp: select_uploader_def)

lemma select_gs: "HasPrefix Destination ''gs://'' \<Longrightarrow> select_uploader Destination = Inr GSUploader"
proof -
  assume g: "HasPrefix Destination ''gs://''"
  then have "\<not> HasPrefix Destination ''s3://''" by (auto simp: HasPrefix_def)
  then show ?thesis using g HasPrefix_nonempty [OF g] by (simp add: select_uploader_def)
qed

lemma upload_first_event:
  assumes "select_uploader Destination = Inr uploader"
  shows "take 1 (snd (upload be Destination artifacts schedule)) = [EvSetup uploader]"
proof (cases "uploader_Setup be uploader Destination")
  case (Some e)
  then show ?thesis using assms by (simp add: upload_def)
next
  case None
  let ?a1 = "map (\<lambda>artifact. artifact\<lparr>URL := uploader_URL be uploader artifact\<rparr>) artifacts"
  show ?thesis
  proof (cases "batch_Create be ?a1")
    case (Inl e)
    then show ?thesis using assms None by (simp add: upload_def)
  next
    case (Inr a2)
    let ?s0 = "\<lparr>var_err = None, var_errors = [], artifactStates = [], artifactStatesUploaded = 0,
                workers = replicate (length a2) Queued, reporter = Polling,
                events = [EvSetup uploader, EvCreate ?a1]\<rparr>"
    show ?thesis
    proof (cases "run be uploader a2 schedule ?s0")
      case None
      then show ?thesis using assms \<open>uploader_Setup be uploader Destination = None\<close> Inr
        by (simp add: upload_def)
    next
      case (Some s)
      from run_events [OF Some] obtain rest where "events s = [EvSetup uploader, EvCreate ?a1] @ rest"
        by auto
      then show ?thesis using assms \<open>uploader_Setup be uploader Destination = None\<close> Inr Some
        by (simp add: upload_def)
    qed
  qed
qed

text \<open>
  Claim C8. The uploader depends on the destination alone: the empty destination selects
  the form uploader, a destination that starts with \<open>s3://\<close> or \<open>gs://\<close> the uploader
  of that name, and any other destination makes \<open>upload\<close> return an error before it has
  called anything: no setup, no registration, no upload. With a valid destination the
  first call is the setup of the selected uploader.
\<close>

theorem upload_selects_uploader:
  "select_uploader [] = Inr FormUploader
   \<and> (HasPrefix Destination ''s3://'' \<longrightarrow> select_uploader Destination = Inr S3Uploader)
   \<and> (HasPrefix Destination ''gs://'' \<longrightarrow> select_uploader Destination = Inr GSUploader)
   \<and> (Destination \<noteq> [] \<and> \<not> HasPrefix Destination ''s3://'' \<and> \<not> HasPrefix Destination ''gs://''
        \<longrightarrow> (\<exists>e. select_uploader Destination = Inl e
              \<and> upload be Destination artifacts schedule = (Some (Returned (Some e)), [])))
   \<and> (\<forall>uploader. select_uploader Destination = Inr uploader
        \<longrightarrow> take 1 (snd (upload be Destination artifacts schedule)) = [EvSetup uploader])"
proof (intro conjI impI allI)
  show "select_uploader [] = Inr FormUploader" by (simp add: select_uploader_def)
next
  assume "HasPrefix Destination ''s3://''"
  then show "select_uploader Destination = Inr S3Uploader" by (rule select_s3)
next
  assume "HasPrefix Destination ''gs://''"
  then show "select_uploader Destination = Inr GSUploader" by (rule select_gs)
next
  assume "Destination \<noteq> [] \<and> \<not> HasPrefix Destination ''s3://'' \<and> \<not> HasPrefix Destination ''gs://''"
  then show "\<exists>e. select_uploader Destination = Inl e
      \<and> upload be Destination artifacts schedule = (Some (Returned (Some e)), [])"
    by (simp add: select_uploader_def upload_def)
next
  fix uploader
  assume "select_uploader Destination = Inr uploader"
  then show "take 1 (snd (upload be Destination artifacts schedule)) = [EvSetup uploader]"
    by (rule upload_first_event)
qed

theorem upload_selects_uploader_witness:
  "HasPrefix ''s3://bucket/dir'' ''s3://'' \<and> select_uploader ''s3://bucket/dir'' = Inr S3Uploader
   \<and> HasPrefix ''gs://bucket/dir'' ''gs://'' \<and> select_uploader ''gs://bucket/dir'' = Inr GSUploader
   \<and> upload example_backend ''ftp://host'' example_artifacts example_schedule
       = (Some (Returned (Some (Err (''Invalid upload destination: '' @ [CHR 0x27] @ ''ftp://host''
            @ [CHR 0x27] @ ''. Only s3:// and gs:// upload destinations are allowed. ''
            @ ''Did you forget to surround your artifact upload pattern in double quotes?'')))), [])
   \<and> take 1 (snd (upload example_backend ''s3://bucket/dir'' example_artifacts example_schedule))
       = [EvSetup S3Uploader]"
proof -
  have s3: "HasPrefix ''s3://bucket/dir'' ''s3://''" by (simp add: HasPrefix_def)
  have gs: "HasPrefix ''gs://bucket/dir'' ''gs://''" by (simp add: HasPrefix_def)
  have ftp: "''ftp://host'' \<noteq> [] \<and> \<not> HasPrefix ''ftp://host'' ''s3://''
      \<and> \<not> HasPrefix ''ftp://host'' ''gs://''"
    by (simp add: HasPrefix_def)
  have sel: "select_uploader ''ftp://host''
      = Inl (Err (''Invalid upload destination: '' @ [CHR 0x27] @ ''ftp://host''
            @ [CHR 0x27] @ ''. Only s3:// and gs:// upload destinations are allowed. ''
            @ ''Did you forget to surround your artifact upload pattern in double quotes?''))"
    by (simp add: select_uploader_def HasPrefix_def)
  show ?thesis
    using upload_selects_uploader [of "''s3://bucket/dir''" example_backend example_artifacts example_schedule]
      upload_selects_uploader [of "''gs://bucket/dir''" example_backend example_artifacts example_schedule]
      upload_selects_uploader [of "''ftp://host''" example_backend example_artifacts example_schedule]
      s3 gs ftp sel
    by auto
qed

text \<open>
  Claim C10. When the collection succeeds with no artifact, \<open>Upload\<close> returns nil and
  has called nothing: it has not looked at the destination, set up an uploader,
  registered, uploaded or updated anything.
\<close>

theorem Upload_nothing_collected:
  assumes "Collect goos env Paths = Inr []"
  shows "Upload goos env be Paths Destination schedule = (Some (Returned None), [])"
  using assms by (simp add: Upload_def)

theorem Upload_nothing_collected_witness:
  "Collect ''linux'' example_os_env ''*.none; '' = Inr []
   \<and> Upload ''linux'' example_os_env example_backend ''*.none; '' ''ftp://host'' []
       = (Some (Returned None), [])
   \<and> (\<exists>e. select_uploader ''ftp://host'' = Inl e)"
proof -
  have c: "Collect ''linux'' example_os_env ''*.none; '' = Inr []" by code_simp
  have s: "\<exists>e. select_uploader ''ftp://host'' = Inl e"
    by (simp add: select_uploader_def HasPrefix_def)
  show ?thesis
    using Upload_nothing_collected [OF c, of example_backend "''ftp://host''" "[]"] c s by simp
qed

text \<open>
  With three artifacts, a pool of two and every upload of \<open>b.log\<close> failing, a schedule
  in which each goroutine reads \<open>err\<close> right after assigning it gives two artifacts
  the state \<open>finished\<close>, one the state \<open>error\<close>, sends every state, and ends in
  \<open>logger.Fatal\<close>.
\<close>

lemma upload_without_race:
  "fst (upload example_backend [] example_artifacts example_schedule)
     = Some (Fatal ''There were errors with uploading some of the artifacts'')
   \<and> drop 2 (snd (upload example_backend [] example_artifacts example_schedule))
     = [EvUpload ''id:a.log'' 1, EvUpload ''id:c.log'' 1,
        EvUpdate [(''id:a.log'', ''finished''), (''id:c.log'', ''finished'')] 1,
        EvUpload ''id:b.log'' 10,
        EvUpdate [(''id:b.log'', ''error'')] 1]"
  by code_simp

text \<open>
  Claim C2, on the code: the workers and the reporter assign and read the one variable
  \<open>err\<close> of \<open>upload\<close>. When the worker of \<open>a.log\<close> assigns nil between the
  assignment and the test of the worker of \<open>b.log\<close>, whose ten attempts have all failed,
  \<open>b.log\<close> gets the state \<open>finished\<close>, nothing is appended to \<open>errors\<close>, the three
  states sent to the backend are all \<open>finished\<close>, and \<open>upload\<close> returns nil.
\<close>

theorem upload_race_marks_failed_artifact_finished:
  "uploader_Upload example_backend FormUploader (example_artifact ''b.log'') attempt
     = Some (Err ''upload failed'')
   \<and> fst (upload example_backend [] example_artifacts example_racing_schedule)
     = Some (Returned None)
   \<and> drop 2 (snd (upload example_backend [] example_artifacts example_racing_schedule))
     = [EvUpload ''id:b.log'' 10, EvUpload ''id:a.log'' 1, EvUpload ''id:c.log'' 1,
        EvUpdate [(''id:b.log'', ''finished''), (''id:a.log'', ''finished''),
                  (''id:c.log'', ''finished'')] 1]"
proof -
  have "uploader_Upload example_backend FormUploader (example_artifact ''b.log'') attempt
      = Some (Err ''upload failed'')"
    by (simp add: example_backend_def example_artifact_def)
  moreover have "fst (upload example_backend [] example_artifacts example_racing_schedule)
      = Some (Returned None)"
    by code_simp
  moreover have "drop 2 (snd (upload example_backend [] example_artifacts example_racing_schedule))
     = [EvUpload ''id:b.log'' 10, EvUpload ''id:a.log'' 1, EvUpload ''id:c.log'' 1,
        EvUpdate [(''id:b.log'', ''finished''), (''id:a.log'', ''finished''),
                  (''id:c.log'', ''finished'')] 1]"
    by code_simp
  ultimately show ?thesis by simp
qed

end
